theory Spec2Isabelle
  imports Complex_Main "HOL-Library.Sublist"
begin

section \<open>Strings\<close>

text \<open>
  A user-agent string is a sequence of code units, modelled as \<open>string\<close>. The source
  compares it only with ASCII literals and with the digit class.

  \<^verbatim>\<open>ua.includes(x)\<close> is true when \<open>x\<close> occurs in \<open>ua\<close> at some position.
\<close>

fun str_includes :: "string \<Rightarrow> string \<Rightarrow> bool" where
  "str_includes [] x = (x = [])"
| "str_includes (c # s) x = (prefix x (c # s) \<or> str_includes s x)"

text \<open>\<^verbatim>\<open>\d\<close>: the ten ASCII digits.\<close>

definition is_digit :: "char \<Rightarrow> bool" where
  "is_digit c = (c \<in> set ''0123456789'')"

text \<open>\<^verbatim>\<open>s.replace(/_/g, '.')\<close>: every underscore becomes a dot.\<close>

definition replace_underscores :: "string \<Rightarrow> string" where
  "replace_underscores s = map (\<lambda>c. if c = CHR ''_'' then CHR ''.'' else c) s"

section \<open>Regular expressions\<close>

text \<open>
  The fragment of regular expressions the source uses: literal text, \<^verbatim>\<open>\d+\<close>, a
  character class such as \<^verbatim>\<open>[._]\<close>, sequence and alternation.
\<close>

datatype regex =
    Lit string
  | Digits
  | OneOf string
  | Seq regex regex
  | Alt regex regex

text \<open>
  \<^verbatim>\<open>\d+\<close> is greedy: after one digit it first tries to take more, and gives back
  digits one at a time when the rest of the pattern (the continuation \<open>k\<close>) fails.
\<close>

fun digits_bt :: "string \<Rightarrow> (string \<Rightarrow> 'a option) \<Rightarrow> 'a option" where
  "digits_bt [] k = None"
| "digits_bt (c # s) k =
     (if is_digit c
      then (case digits_bt s k of Some r \<Rightarrow> Some r | None \<Rightarrow> k s)
      else None)"

text \<open>
  The backtracking matcher: \<open>rx_match r s k\<close> matches \<open>r\<close> at the start of \<open>s\<close> and
  hands the unconsumed text to \<open>k\<close>; \<open>None\<close> is failure. An alternation tries its left
  branch first.
\<close>

fun rx_match :: "regex \<Rightarrow> string \<Rightarrow> (string \<Rightarrow> 'a option) \<Rightarrow> 'a option" where
  "rx_match (Lit l) s k = (if prefix l s then k (drop (length l) s) else None)"
| "rx_match Digits s k = digits_bt s k"
| "rx_match (OneOf cs) s k =
     (case s of [] \<Rightarrow> None | c # t \<Rightarrow> if c \<in> set cs then k t else None)"
| "rx_match (Seq a b) s k = rx_match a s (\<lambda>t. rx_match b t k)"
| "rx_match (Alt a b) s k =
     (case rx_match a s k of Some r \<Rightarrow> Some r | None \<Rightarrow> rx_match b s k)"

text \<open>
  Every pattern of the source has the shape \<^verbatim>\<open>/lead(group)/\<close>: some text without a
  capture, then one capturing group that ends the pattern.
\<close>

record pattern =
  lead :: regex
  group :: regex

text \<open>A match that starts at the first character of \<open>s\<close>; the result is the text of group 1.\<close>

definition match_at :: "pattern \<Rightarrow> string \<Rightarrow> string option" where
  "match_at p s =
     rx_match (lead p) s (\<lambda>s1.
       rx_match (group p) s1 (\<lambda>s2. Some (take (length s1 - length s2) s1)))"

text \<open>
  \<^verbatim>\<open>s.match(re)\<close> for a pattern without flags: the leftmost start position with a match
  wins. \<open>None\<close> is \<^verbatim>\<open>null\<close>, \<open>Some g\<close> is a match whose \<^verbatim>\<open>match[1]\<close> is \<open>g\<close>.
\<close>

fun js_match :: "pattern \<Rightarrow> string \<Rightarrow> string option" where
  "js_match p [] = match_at p []"
| "js_match p (c # s) =
     (case match_at p (c # s) of Some g \<Rightarrow> Some g | None \<Rightarrow> js_match p s)"

text \<open>
  Two notions for stating where a match lies. A string starts with a digit when
  \<^verbatim>\<open>\d+\<close> could take its first character. A character is inert for a regular
  expression when no part of the expression can consume it.
\<close>

fun starts_with_digit :: "string \<Rightarrow> bool" where
  "starts_with_digit [] = False"
| "starts_with_digit (c # s) = is_digit c"

fun inert :: "char \<Rightarrow> regex \<Rightarrow> bool" where
  "inert x (Lit l) = (x \<notin> set l)"
| "inert x Digits = (\<not> is_digit x)"
| "inert x (OneOf cs) = (x \<notin> set cs)"
| "inert x (Seq a b) = (inert x a \<and> inert x b)"
| "inert x (Alt a b) = (inert x a \<and> inert x b)"

text \<open>\<^verbatim>\<open>(\d+\.\d+)\<close>, the group of most version patterns.\<close>

definition major_minor :: regex where
  "major_minor = Seq Digits (Seq (Lit ''.'') Digits)"

definition re_Chrome :: pattern where
  "re_Chrome = \<lparr>lead = Lit ''Chrome/'', group = major_minor\<rparr>"

definition re_Firefox :: pattern where
  "re_Firefox = \<lparr>lead = Lit ''Firefox/'', group = major_minor\<rparr>"

definition re_Version :: pattern where
  "re_Version = \<lparr>lead = Lit ''Version/'', group = major_minor\<rparr>"

definition re_Edge :: pattern where
  "re_Edge = \<lparr>lead = Lit ''Edge/'', group = major_minor\<rparr>"

definition re_Opera :: pattern where
  "re_Opera = \<lparr>lead = Seq (Alt (Lit ''Opera'') (Lit ''OPR'')) (Lit ''/''), group = major_minor\<rparr>"

definition re_WebKit :: pattern where
  "re_WebKit = \<lparr>lead = Lit ''WebKit/'', group = major_minor\<rparr>"

definition re_Gecko :: pattern where
  "re_Gecko = \<lparr>lead = Lit ''Gecko/'', group = Digits\<rparr>"

definition re_WindowsNT :: pattern where
  "re_WindowsNT = \<lparr>lead = Lit ''Windows NT '', group = major_minor\<rparr>"

definition re_MacOSX :: pattern where
  "re_MacOSX = \<lparr>lead = Lit ''Mac OS X '',
     group = Seq Digits (Seq (OneOf ''._'') (Seq Digits (Seq (OneOf ''._'') Digits)))\<rparr>"

definition re_Android :: pattern where
  "re_Android = \<lparr>lead = Lit ''Android '', group = major_minor\<rparr>"

definition re_iOS :: pattern where
  "re_iOS = \<lparr>lead = Lit ''OS '', group = Seq Digits (Seq (Lit ''_'') Digits)\<rparr>"

section \<open>The user-agent classifier\<close>

definition getBrowserName :: "string \<Rightarrow> string" where
  "getBrowserName ua =
     (if str_includes ua ''Firefox'' then ''Firefox''
      else if str_includes ua ''Chrome'' \<and> \<not> str_includes ua ''Chromium'' then ''Chrome''
      else if str_includes ua ''Chromium'' then ''Chromium''
      else if str_includes ua ''Safari'' \<and> \<not> str_includes ua ''Chrome'' then ''Safari''
      else if str_includes ua ''Edge'' then ''Edge''
      else if str_includes ua ''Opera'' \<or> str_includes ua ''OPR'' then ''Opera''
      else if str_includes ua ''Trident'' then ''Internet Explorer''
      else ''Unknown'')"

text \<open>\<^verbatim>\<open>match ? match[1] : 'Unknown'\<close>\<close>

definition or_Unknown :: "string option \<Rightarrow> string" where
  "or_Unknown m = (case m of Some g \<Rightarrow> g | None \<Rightarrow> ''Unknown'')"

definition getBrowserVersion :: "string \<Rightarrow> string" where
  "getBrowserVersion ua =
     (let browserName = getBrowserName ua in
      if browserName = ''Chrome'' then or_Unknown (js_match re_Chrome ua)
      else if browserName = ''Firefox'' then or_Unknown (js_match re_Firefox ua)
      else if browserName = ''Safari'' then or_Unknown (js_match re_Version ua)
      else if browserName = ''Edge'' then or_Unknown (js_match re_Edge ua)
      else if browserName = ''Opera'' then or_Unknown (js_match re_Opera ua)
      else ''Unknown'')"

definition getEngineName :: "string \<Rightarrow> string" where
  "getEngineName ua =
     (if str_includes ua ''Blink'' then ''Blink''
      else if str_includes ua ''WebKit'' then ''WebKit''
      else if str_includes ua ''Gecko'' then ''Gecko''
      else if str_includes ua ''Trident'' then ''Trident''
      else if str_includes ua ''EdgeHTML'' then ''EdgeHTML''
      else ''Unknown'')"

definition getEngineVersion :: "string \<Rightarrow> string" where
  "getEngineVersion ua =
     (case js_match re_WebKit ua of
        Some g \<Rightarrow> g
      | None \<Rightarrow>
          (case js_match re_Gecko ua of
             Some g \<Rightarrow> g
           | None \<Rightarrow> ''Unknown''))"

definition getOperatingSystem :: "string \<Rightarrow> string" where
  "getOperatingSystem ua =
     (if str_includes ua ''Windows NT 10.0'' then ''Windows 10/11''
      else if str_includes ua ''Windows NT 6.3'' then ''Windows 8.1''
      else if str_includes ua ''Windows NT 6.2'' then ''Windows 8''
      else if str_includes ua ''Windows NT 6.1'' then ''Windows 7''
      else if str_includes ua ''Windows'' then ''Windows''
      else if str_includes ua ''Mac OS X'' then ''macOS''
      else if str_includes ua ''Linux'' then ''Linux''
      else if str_includes ua ''Android'' then ''Android''
      else if str_includes ua ''iOS'' then ''iOS''
      else if str_includes ua ''iPad'' then ''iPadOS''
      else ''Unknown'')"

definition getOSVersion :: "string \<Rightarrow> string" where
  "getOSVersion ua =
     (case js_match re_WindowsNT ua of
        Some g \<Rightarrow> g
      | None \<Rightarrow>
          (case js_match re_MacOSX ua of
             Some g \<Rightarrow> replace_underscores g
           | None \<Rightarrow>
               (case js_match re_Android ua of
                  Some g \<Rightarrow> g
                | None \<Rightarrow>
                    (case js_match re_iOS ua of
                       Some g \<Rightarrow> replace_underscores g
                     | None \<Rightarrow> ''Unknown''))))"

definition getArchitecture :: "string \<Rightarrow> string" where
  "getArchitecture ua =
     (if str_includes ua ''WOW64'' \<or> str_includes ua ''Win64'' \<or> str_includes ua ''x86_64''
      then ''64-bit''
      else if str_includes ua ''ARM'' then ''ARM''
      else if str_includes ua ''x86'' then ''32-bit''
      else ''Unknown'')"

section \<open>The gatherer's data\<close>

text \<open>
  \<^verbatim>\<open>navigator\<close>, as far as \<^verbatim>\<open>gatherBrowserInfo\<close> and \<^verbatim>\<open>gatherSystemInfo\<close> read it. A
  property that a browser may leave undefined (or \<^verbatim>\<open>null\<close>) is an option.
\<close>

record navigator =
  nav_userAgent :: string
  nav_vendor :: string
  nav_product :: string
  nav_appName :: string
  nav_appVersion :: string
  nav_appCodeName :: string
  nav_platform :: string
  nav_language :: string
  nav_languages :: "string list option"
  nav_cookieEnabled :: bool
  nav_onLine :: bool
  nav_doNotTrack :: "string option"
  nav_hardwareConcurrency :: "nat option"
  nav_maxTouchPoints :: "nat option"
  nav_pdfViewerEnabled :: "bool option"

text \<open>\<^verbatim>\<open>this.data.browser\<close>\<close>

record browser_info =
  userAgent :: string
  vendor :: string
  product :: string
  appName :: string
  appVersion :: string
  appCodeName :: string
  platform :: string
  language :: string
  languages :: "string list"
  cookieEnabled :: bool
  onLine :: bool
  doNotTrack :: string
  browserName :: string
  browserVersion :: string
  engineName :: string
  engineVersion :: string

text \<open>
  \<^verbatim>\<open>this.data.system\<close>; \<open>cpuCores\<close> is the number of cores or the string
  \<^verbatim>\<open>'Unknown'\<close>.
\<close>

record system_info =
  system_platform :: string
  operatingSystem :: string
  osVersion :: string
  architecture :: string
  cpuCores :: "string + nat"
  system_maxTouchPoints :: nat
  system_pdfViewerEnabled :: bool

section \<open>JSON values\<close>

text \<open>
  What \<^verbatim>\<open>response.json()\<close> resolves to. An object lists its members in the order of
  the body's text. A number is its value; an overflowing literal (\<^verbatim>\<open>Infinity\<close>) is not
  represented.
\<close>

datatype json =
    JNull
  | JBool bool
  | JNum rat
  | JStr string
  | JArr "json list"
  | JObj "(string \<times> json) list"

text \<open>
  \<^verbatim>\<open>data.k\<close> for \<open>data\<close> other than \<^verbatim>\<open>null\<close>, with \<open>None\<close> for \<^verbatim>\<open>undefined\<close>. Of two
  members with one key the later one is the object's property. The keys the source
  reads are no properties of arrays, strings, numbers or booleans.
\<close>

definition js_get :: "json \<Rightarrow> string \<Rightarrow> json option" where
  "js_get data k = (case data of JObj members \<Rightarrow> map_of (rev members) k | _ \<Rightarrow> None)"

fun truthy :: "json \<Rightarrow> bool" where
  "truthy JNull = False"
| "truthy (JBool b) = b"
| "truthy (JNum n) = (n \<noteq> 0)"
| "truthy (JStr s) = (s \<noteq> [])"
| "truthy (JArr xs) = True"
| "truthy (JObj members) = True"

definition is_truthy :: "json option \<Rightarrow> bool" where
  "is_truthy v = (case v of None \<Rightarrow> False | Some x \<Rightarrow> truthy x)"

text \<open>\<^verbatim>\<open>a || b\<close>\<close>

definition js_or :: "json option \<Rightarrow> json option \<Rightarrow> json option" where
  "js_or a b = (if is_truthy a then a else b)"

text \<open>\<^verbatim>\<open>a || 'literal'\<close>\<close>

definition js_or_str :: "json option \<Rightarrow> string \<Rightarrow> json" where
  "js_or_str a d = (case a of None \<Rightarrow> JStr d | Some x \<Rightarrow> if truthy x then x else JStr d)"

text \<open>\<^verbatim>\<open>if (data.k) this.data.network.f = data.k\<close>: the field as it is afterwards.\<close>

definition when_truthy :: "json option \<Rightarrow> json option" where
  "when_truthy v = (if is_truthy v then v else None)"

section \<open>The network resolver\<close>

text \<open>\<^verbatim>\<open>this.data.network\<close>; a field that the object does not have is \<open>None\<close>.\<close>

record network_info =
  publicIP :: json
  ipService :: "string option"
  headers :: "(string \<times> json) list option"
  country :: "json option"
  city :: "json option"
  region :: "json option"
  organization :: "json option"
  autonomous_system :: "json option"
  error :: "string option"

text \<open>\<^verbatim>\<open>this.data\<close>, as far as the classifier and the resolver write it.\<close>

record gatherer_data =
  browser :: "browser_info option"
  system :: "system_info option"
  network :: "network_info option"

text \<open>
  What one \<^verbatim>\<open>await fetch(service)\<close> followed by \<^verbatim>\<open>await response.json()\<close> yields: the
  fetch rejects (a network error, a refusal by CORS, a request that the browser gives up
  after its own timeout), or it resolves to a response with an HTTP status, and then
  \<^verbatim>\<open>json()\<close> either rejects (\<open>None\<close>: the body is not JSON) or resolves to a JSON value.
  The source sets no timeout of its own; a request that never settles is not among the
  outcomes.
\<close>

datatype outcome =
    Rejected
  | Response nat "json option"

text \<open>The exceptions of one iteration, all caught by the inner \<^verbatim>\<open>catch\<close>.\<close>

datatype exn = NetworkError | SyntaxError | TypeError

text \<open>
  The body of the inner \<^verbatim>\<open>try\<close> for one service. Reading \<^verbatim>\<open>data.ip\<close> of \<^verbatim>\<open>null\<close> is a
  \<^verbatim>\<open>TypeError\<close>, raised before \<^verbatim>\<open>this.data.network\<close> is assigned. The status of the
  response is not read.
\<close>

definition attempt :: "string \<Rightarrow> outcome \<Rightarrow> exn + network_info" where
  "attempt service out =
     (case out of
        Rejected \<Rightarrow> Inl NetworkError
      | Response status body \<Rightarrow>
          (case body of
             None \<Rightarrow> Inl SyntaxError
           | Some data \<Rightarrow>
               if data = JNull then Inl TypeError
               else Inr \<lparr>
                 publicIP = js_or_str (js_or (js_or (js_get data ''ip'') (js_get data ''origin''))
                                        (js_get data ''query'')) ''Unable to determine'',
                 ipService = Some service,
                 headers = Some [],
                 country = when_truthy (js_get data ''country''),
                 city = when_truthy (js_get data ''city''),
                 region = when_truthy (js_get data ''region''),
                 organization = when_truthy (js_get data ''org''),
                 autonomous_system = when_truthy (js_get data ''as''),
                 error = None\<rparr>))"

text \<open>
  The \<^verbatim>\<open>for\<close> loop over the services. Each entry is a URL with the outcome that its
  request has when the loop issues it. The loop returns \<^verbatim>\<open>this.data.network\<close> and the
  URLs passed to \<^verbatim>\<open>fetch\<close>, in order.
\<close>

fun try_services :: "(string \<times> outcome) list \<Rightarrow> network_info option \<Rightarrow>
    network_info option \<times> string list" where
  "try_services [] net = (net, [])"
| "try_services ((service, out) # rest) net =
     (case attempt service out of
        Inr n \<Rightarrow> (Some n, [service])
      | Inl e \<Rightarrow> (case try_services rest net of (net', reqs) \<Rightarrow> (net', service # reqs)))"

text \<open>\<^verbatim>\<open>if (!this.data.network) this.data.network = {publicIP: ..., error: ...}\<close>\<close>

definition FailureMarker :: network_info where
  "FailureMarker = \<lparr>
     publicIP = JStr ''Unable to determine (CORS/Network restrictions)'',
     ipService = None, headers = None, country = None, city = None, region = None,
     organization = None, autonomous_system = None,
     error = Some ''All IP services failed''\<rparr>"

text \<open>
  The body of \<^verbatim>\<open>gatherNetworkInfo\<close> for a given list of services: the loop and the
  check after it. The result is \<^verbatim>\<open>this.data.network\<close> at the end, with the URLs
  requested. Nothing outside the inner \<^verbatim>\<open>try\<close> raises, so the outer \<^verbatim>\<open>catch\<close> is never
  entered.
\<close>

definition resolve :: "(string \<times> outcome) list \<Rightarrow> network_info option \<Rightarrow>
    network_info \<times> string list" where
  "resolve entries net =
     (case try_services entries net of
        (Some n, reqs) \<Rightarrow> (n, reqs)
      | (None, reqs) \<Rightarrow> (FailureMarker, reqs))"

definition ipServices :: "string list" where
  "ipServices = [
     ''https://api.ipify.org?format=json'',
     ''https://httpbin.org/ip'',
     ''https://api.myip.com'',
     ''https://ipapi.co/json/'']"

text \<open>
  \<^verbatim>\<open>gatherNetworkInfo\<close> itself runs on the constant list; \<open>fetch u\<close> is the outcome of
  the request to \<open>u\<close>.
\<close>

definition gatherNetworkInfo :: "(string \<Rightarrow> outcome) \<Rightarrow> gatherer_data \<Rightarrow>
    gatherer_data \<times> string list" where
  "gatherNetworkInfo fetch d =
     (case resolve (map (\<lambda>service. (service, fetch service)) ipServices) (network d) of
        (n, reqs) \<Rightarrow> (d\<lparr>network := Some n\<rparr>, reqs))"

section \<open>Gathering the browser and system fields\<close>

text \<open>\<^verbatim>\<open>s || 'Unknown'\<close> on a string.\<close>

definition str_or :: "string \<Rightarrow> string \<Rightarrow> string" where
  "str_or s d = (if s = [] then d else s)"

definition gatherBrowserInfo :: "navigator \<Rightarrow> gatherer_data \<Rightarrow> gatherer_data" where
  "gatherBrowserInfo nav d =
     (let ua = nav_userAgent nav in
      d\<lparr>browser := Some \<lparr>
        userAgent = ua,
        vendor = str_or (nav_vendor nav) ''Unknown'',
        product = str_or (nav_product nav) ''Unknown'',
        appName = str_or (nav_appName nav) ''Unknown'',
        appVersion = str_or (nav_appVersion nav) ''Unknown'',
        appCodeName = str_or (nav_appCodeName nav) ''Unknown'',
        platform = str_or (nav_platform nav) ''Unknown'',
        language = str_or (nav_language nav) ''Unknown'',
        languages = (case nav_languages nav of Some ls \<Rightarrow> ls | None \<Rightarrow> [''Unknown'']),
        cookieEnabled = nav_cookieEnabled nav,
        onLine = nav_onLine nav,
        doNotTrack = (case nav_doNotTrack nav of
                        Some s \<Rightarrow> str_or s ''Not specified''
                      | None \<Rightarrow> ''Not specified''),
        browserName = getBrowserName ua,
        browserVersion = getBrowserVersion ua,
        engineName = getEngineName ua,
        engineVersion = getEngineVersion ua\<rparr>\<rparr>)"

definition gatherSystemInfo :: "navigator \<Rightarrow> gatherer_data \<Rightarrow> gatherer_data" where
  "gatherSystemInfo nav d =
     (let ua = nav_userAgent nav in
      d\<lparr>system := Some \<lparr>
        system_platform = str_or (nav_platform nav) ''Unknown'',
        operatingSystem = getOperatingSystem ua,
        osVersion = getOSVersion ua,
        architecture = getArchitecture ua,
        cpuCores = (case nav_hardwareConcurrency nav of
                      Some n \<Rightarrow> if n = 0 then Inl ''Unknown'' else Inr n
                    | None \<Rightarrow> Inl ''Unknown''),
        system_maxTouchPoints = (case nav_maxTouchPoints nav of Some n \<Rightarrow> n | None \<Rightarrow> 0),
        system_pdfViewerEnabled =
          (case nav_pdfViewerEnabled nav of Some b \<Rightarrow> b | None \<Rightarrow> False)\<rparr>\<rparr>)"

text \<open>
  The seven fields that are parsed from the user-agent string, in the order browser
  name, browser version, engine name, engine version, operating system, OS version,
  architecture.
\<close>

definition classify :: "string \<Rightarrow> string list" where
  "classify ua =
     [getBrowserName ua, getBrowserVersion ua, getEngineName ua, getEngineVersion ua,
      getOperatingSystem ua, getOSVersion ua, getArchitecture ua]"

text \<open>The same seven fields as read back from \<^verbatim>\<open>this.data\<close>, once both parts are set.\<close>

definition classified :: "gatherer_data \<Rightarrow> string list option" where
  "classified d =
     (case (browser d, system d) of
        (Some b, Some s) \<Rightarrow>
          Some [browserName b, browserVersion b, engineName b, engineVersion b,
                operatingSystem s, osVersion s, architecture s]
      | _ \<Rightarrow> None)"

section \<open>Substrings and matches\<close>

lemma str_includes_iff: "str_includes s x \<longleftrightarrow> sublist x s"
  by (induction s) (auto simp: sublist_Cons_right)

lemma str_includes_append: "str_includes (pre @ x @ post) x"
  by (simp add: str_includes_iff)

lemma str_includes_part: "str_includes s (a @ b) \<Longrightarrow> str_includes s a"
  unfolding str_includes_iff by (metis sublist_append_rightI sublist_order.order_trans)

lemma digits_bt_no_digit: "\<not> starts_with_digit s \<Longrightarrow> digits_bt s k = None"
  by (cases s) auto

lemma digits_bt_inert:
  assumes "\<not> is_digit x" and "\<And>u. k' u = None \<Longrightarrow> k (u @ x # t) = None"
    and "digits_bt s k' = None"
  shows "digits_bt (s @ x # t) k = None"
  using assms(3)
proof (induction s)
  case Nil
  from assms(1) show ?case by simp
next
  case (Cons c s)
  show ?case
  proof (cases "is_digit c")
    case True
    with Cons.prems have a: "digits_bt s k' = None" and b: "k' s = None"
      by (auto split: option.splits)
    from Cons.IH [OF a] assms(2) [OF b] True show ?thesis by simp
  next
    case False
    then show ?thesis by simp
  qed
qed

lemma prefix_before_inert:
  assumes "prefix l (s @ x # t)" and "x \<notin> set l"
  shows "prefix l s"
proof -
  from assms(1) have "prefix l s \<or> (\<exists>us. l = s @ us \<and> prefix us (x # t))"
    by (simp add: prefix_append)
  then show ?thesis
  proof
    assume "prefix l s" then show ?thesis .
  next
    assume "\<exists>us. l = s @ us \<and> prefix us (x # t)"
    then obtain us where l: "l = s @ us" and p: "prefix us (x # t)" by blast
    from l assms(2) have "x \<notin> set us" by simp
    with p have "us = []" by (cases us) auto
    with l show ?thesis by simp
  qed
qed

lemma rx_match_inert:
  assumes "inert x r" and "\<And>u. k' u = None \<Longrightarrow> k (u @ x # t) = None"
    and "rx_match r s k' = None"
  shows "rx_match r (s @ x # t) k = None"
  using assms
proof (induction r arbitrary: s k k')
  case (Lit l)
  show ?case
  proof (cases "prefix l (s @ x # t)")
    case True
    with Lit.prems(1) have p: "prefix l s" by (auto dest: prefix_before_inert)
    then have "length l \<le> length s" by (rule prefix_length_le)
    with p Lit.prems show ?thesis by simp
  next
    case False
    then show ?thesis by simp
  qed
next
  case Digits
  then show ?case by (auto intro: digits_bt_inert)
next
  case (OneOf cs)
  then show ?case by (cases s) (auto split: if_splits)
next
  case (Seq a b)
  have "rx_match a (s @ x # t) (\<lambda>u. rx_match b u k) = None"
  proof (rule Seq.IH(1))
    from Seq.prems(1) show "inert x a" by simp
  next
    fix u assume "rx_match b u k' = None"
    with Seq.prems show "rx_match b (u @ x # t) k = None"
      by (intro Seq.IH(2)) auto
  next
    from Seq.prems(3) show "rx_match a s (\<lambda>u. rx_match b u k') = None" by simp
  qed
  then show ?case by simp
next
  case (Alt a b)
  from Alt.prems(3) have a: "rx_match a s k' = None" and b: "rx_match b s k' = None"
    by (auto split: option.splits)
  from Alt.prems have "rx_match a (s @ x # t) k = None"
    by (intro Alt.IH(1) [OF _ _ a]) auto
  moreover from Alt.prems have "rx_match b (s @ x # t) k = None"
    by (intro Alt.IH(2) [OF _ _ b]) auto
  ultimately show ?case by simp
qed

lemma rx_match_inert_total:
  assumes "inert x r" and "rx_match r s (\<lambda>u. Some (f u)) = None"
  shows "rx_match r (s @ x # t) k = None"
  by (rule rx_match_inert [OF assms(1) _ assms(2)]) simp

lemma match_at_inert:
  assumes "lead p = Lit l" and "x \<notin> set (tl l)" and "inert x (group p)"
    and "s \<noteq> []" and "match_at p s = None"
  shows "match_at p (s @ x # t) = None"
proof (cases "prefix l (s @ x # t)")
  case True
  have p: "prefix l s"
  proof (cases l)
    case Nil
    then show ?thesis by simp
  next
    case (Cons a l')
    from assms(4) obtain c s' where s: "s = c # s'" by (cases s) auto
    from True Cons s have "a = c" and "prefix l' (s' @ x # t)" by auto
    moreover from assms(2) Cons have "x \<notin> set l'" by simp
    ultimately have "prefix l' s'" by (auto dest: prefix_before_inert)
    with \<open>a = c\<close> Cons s show ?thesis by simp
  qed
  then have len: "length l \<le> length s" by (rule prefix_length_le)
  from assms(5) p assms(1)
  have "rx_match (group p) (drop (length l) s)
          (\<lambda>s2. Some (take (length (drop (length l) s) - length s2) (drop (length l) s))) = None"
    by (simp add: match_at_def)
  with assms(3)
  have "rx_match (group p) (drop (length l) s @ x # t)
          (\<lambda>s2. Some (take (length (drop (length l) s @ x # t) - length s2)
                        (drop (length l) s @ x # t))) = None"
    by (rule rx_match_inert_total)
  with True len assms(1) show ?thesis by (simp add: match_at_def)
next
  case False
  with assms(1) show ?thesis by (simp add: match_at_def)
qed

lemma js_match_None_Cons:
  "js_match p (c # s) = None \<Longrightarrow> match_at p (c # s) = None \<and> js_match p s = None"
  by (cases "match_at p (c # s)") auto

lemma js_match_skip:
  assumes "lead p = Lit l" and "x \<notin> set (tl l)" and "inert x (group p)"
    and "js_match p pre = None"
  shows "js_match p (pre @ x # t) = js_match p (x # t)"
  using assms(4)
proof (induction pre)
  case Nil
  show ?case by simp
next
  case (Cons c pre)
  from js_match_None_Cons [OF Cons.prems]
  have a: "match_at p (c # pre) = None" and b: "js_match p pre = None"
    by simp_all
  have "match_at p ((c # pre) @ x # t) = None"
    using assms(1-3) _ a by (rule match_at_inert) simp
  with Cons.IH [OF b] show ?case by simp
qed

lemma match_at_lead: "lead p = Lit l \<Longrightarrow> match_at p s = Some g \<Longrightarrow> prefix l s"
  by (auto simp: match_at_def split: if_splits)

lemma js_match_lead:
  "lead p = Lit l \<Longrightarrow> js_match p s = Some g \<Longrightarrow> str_includes s l"
proof (induction s)
  case Nil
  then show ?case by (auto dest: match_at_lead)
next
  case (Cons c s)
  then show ?case by (auto dest: match_at_lead split: option.splits)
qed

lemma match_Chrome_here:
  "\<not> starts_with_digit post \<Longrightarrow> match_at re_Chrome (''Chrome/120.0'' @ post) = Some ''120.0''"
  by (simp add: match_at_def re_Chrome_def major_minor_def is_digit_def digits_bt_no_digit)

lemma match_Android_here:
  "\<not> starts_with_digit post \<Longrightarrow> match_at re_Android (''Android 13.0'' @ post) = Some ''13.0''"
  by (simp add: match_at_def re_Android_def major_minor_def is_digit_def digits_bt_no_digit)

lemma match_MacOSX_here:
  "\<not> starts_with_digit post \<Longrightarrow> match_at re_MacOSX (''Mac OS X 10_15_7'' @ post) = Some ''10_15_7''"
  by (simp add: match_at_def re_MacOSX_def is_digit_def digits_bt_no_digit)

lemma str_includes_longer: "\<not> str_includes s a \<Longrightarrow> \<not> str_includes s (a @ b)"
  by (blast dest: str_includes_part)

lemma no_token_no_match:
  "lead p = Lit l \<Longrightarrow> \<not> str_includes s l \<Longrightarrow> js_match p s = None"
  by (cases "js_match p s") (auto dest: js_match_lead)

section \<open>The loop over the services\<close>

lemma attempt_fails_iff:
  "isl (attempt service out) \<longleftrightarrow>
     out = Rejected \<or> (\<exists>status. out = Response status None)
       \<or> (\<exists>status. out = Response status (Some JNull))"
  by (auto simp: attempt_def split: outcome.splits option.splits)

lemma try_services_skip_failed:
  "\<forall>e \<in> set pre. isl (attempt (fst e) (snd e)) \<Longrightarrow>
   try_services (pre @ rest) net =
     (fst (try_services rest net), map fst pre @ snd (try_services rest net))"
proof (induction pre)
  case Nil
  show ?case by simp
next
  case (Cons e pre)
  obtain service out where e: "e = (service, out)" by (cases e)
  from Cons.prems e obtain x where x: "attempt service out = Inl x"
    by (cases "attempt service out") auto
  from Cons show ?case by (simp add: e x split: prod.splits)
qed

lemma resolve_first_success:
  assumes "\<forall>e \<in> set pre. isl (attempt (fst e) (snd e))"
      and "attempt service out = Inr n"
  shows "resolve (pre @ (service, out) # post) net = (n, map fst pre @ [service])"
  using assms by (simp add: resolve_def try_services_skip_failed)

lemma resolve_all_failed:
  assumes "\<forall>e \<in> set entries. isl (attempt (fst e) (snd e))"
  shows "resolve entries None = (FailureMarker, map fst entries)"
  using try_services_skip_failed [OF assms, of "[]" None] by (simp add: resolve_def)

lemma requests_prefix: "prefix (snd (try_services entries net)) (map fst entries)"
proof (induction entries)
  case Nil
  show ?case by simp
next
  case (Cons e entries)
  obtain service out where e: "e = (service, out)" by (cases e)
  from Cons show ?case by (auto simp: e split: sum.splits prod.splits)
qed

lemma attempt_fields:
  assumes "data \<noteq> JNull"
  shows "\<exists>r. attempt service (Response status (Some data)) = Inr r
     \<and> (\<forall>v. js_get data ''ip'' = Some v \<longrightarrow> truthy v \<longrightarrow> publicIP r = v)
     \<and> (\<forall>v. \<not> is_truthy (js_get data ''ip'') \<longrightarrow> js_get data ''origin'' = Some v \<longrightarrow> truthy v
            \<longrightarrow> publicIP r = v)
     \<and> (\<forall>v. \<not> is_truthy (js_get data ''ip'') \<longrightarrow> \<not> is_truthy (js_get data ''origin'')
            \<longrightarrow> js_get data ''query'' = Some v \<longrightarrow> truthy v \<longrightarrow> publicIP r = v)
     \<and> (\<not> is_truthy (js_get data ''ip'') \<longrightarrow> \<not> is_truthy (js_get data ''origin'')
            \<longrightarrow> \<not> is_truthy (js_get data ''query'') \<longrightarrow> publicIP r = JStr ''Unable to determine'')
     \<and> ipService r = Some service
     \<and> error r = None
     \<and> country r = (if is_truthy (js_get data ''country'') then js_get data ''country'' else None)
     \<and> city r = (if is_truthy (js_get data ''city'') then js_get data ''city'' else None)
     \<and> region r = (if is_truthy (js_get data ''region'') then js_get data ''region'' else None)
     \<and> organization r = (if is_truthy (js_get data ''org'') then js_get data ''org'' else None)
     \<and> autonomous_system r = (if is_truthy (js_get data ''as'') then js_get data ''as'' else None)"
  using assms
  by (auto simp: attempt_def js_or_def js_or_str_def when_truthy_def is_truthy_def
      split: option.splits)

lemma resolve_skip_failed:
  assumes "\<forall>e \<in> set pre. isl (attempt (fst e) (snd e))"
  shows "resolve (pre @ rest) net = (fst (resolve rest net), map fst pre @ snd (resolve rest net))"
  by (simp add: resolve_def try_services_skip_failed [OF assms]
      split: prod.splits option.splits)

lemma resolve_requests: "snd (resolve entries net) = snd (try_services entries net)"
  by (simp add: resolve_def split: prod.splits option.splits)

section \<open>Properties of the resolver\<close>

text \<open>
  C1, amended. Take a run in which every request settles; the source sets no timeout, so
  a request that times out is one that the browser gives up, a rejected fetch. Let the
  entries before some entry all fail in the sense of the code, that is, the fetch
  rejects, the body is not JSON, or the body is \<^verbatim>\<open>null\<close>, and let that entry answer, with
  any HTTP status, with a body that parses to a JSON value other than \<^verbatim>\<open>null\<close>. Then the
  resolver requests the entries up to and including that one, each once and in order,
  and none after it. The public IP of the result is the first truthy one of the fields
  \<^verbatim>\<open>ip\<close>, \<^verbatim>\<open>origin\<close> and \<^verbatim>\<open>query\<close> of that body, in this order, and the placeholder
  \<^verbatim>\<open>Unable to determine\<close> when none is truthy; the source service is the URL of that
  entry, the result has no \<^verbatim>\<open>error\<close>, and each of country, city, region, organization
  and autonomous system is present exactly when the body has a truthy field for it,
  with that value. The witness is the run where the fetch of the first service rejects
  and the second answers \<^verbatim>\<open>{"origin": "203.0.113.5"}\<close>.
\<close>

theorem first_valid_response_wins:
  assumes "\<forall>e \<in> set pre. snd e = Rejected \<or> (\<exists>status. snd e = Response status None)
               \<or> (\<exists>status. snd e = Response status (Some JNull))"
      and "data \<noteq> JNull"
  shows "\<exists>r. resolve (pre @ (service, Response status (Some data)) # post) None
            = (r, map fst pre @ [service])
     \<and> (\<forall>v. js_get data ''ip'' = Some v \<longrightarrow> truthy v \<longrightarrow> publicIP r = v)
     \<and> (\<forall>v. \<not> is_truthy (js_get data ''ip'') \<longrightarrow> js_get data ''origin'' = Some v \<longrightarrow> truthy v
            \<longrightarrow> publicIP r = v)
     \<and> (\<forall>v. \<not> is_truthy (js_get data ''ip'') \<longrightarrow> \<not> is_truthy (js_get data ''origin'')
            \<longrightarrow> js_get data ''query'' = Some v \<longrightarrow> truthy v \<longrightarrow> publicIP r = v)
     \<and> (\<not> is_truthy (js_get data ''ip'') \<longrightarrow> \<not> is_truthy (js_get data ''origin'')
            \<longrightarrow> \<not> is_truthy (js_get data ''query'') \<longrightarrow> publicIP r = JStr ''Unable to determine'')
     \<and> ipService r = Some service
     \<and> error r = None
     \<and> country r = (if is_truthy (js_get data ''country'') then js_get data ''country'' else None)
     \<and> city r = (if is_truthy (js_get data ''city'') then js_get data ''city'' else None)
     \<and> region r = (if is_truthy (js_get data ''region'') then js_get data ''region'' else None)
     \<and> organization r = (if is_truthy (js_get data ''org'') then js_get data ''org'' else None)
     \<and> autonomous_system r = (if is_truthy (js_get data ''as'') then js_get data ''as'' else None)"
proof -
  from attempt_fields [OF assms(2), of service status]
  obtain r where r: "attempt service (Response status (Some data)) = Inr r"
    and rest: "(\<forall>v. js_get data ''ip'' = Some v \<longrightarrow> truthy v \<longrightarrow> publicIP r = v)
     \<and> (\<forall>v. \<not> is_truthy (js_get data ''ip'') \<longrightarrow> js_get data ''origin'' = Some v \<longrightarrow> truthy v
            \<longrightarrow> publicIP r = v)
     \<and> (\<forall>v. \<not> is_truthy (js_get data ''ip'') \<longrightarrow> \<not> is_truthy (js_get data ''origin'')
            \<longrightarrow> js_get data ''query'' = Some v \<longrightarrow> truthy v \<longrightarrow> publicIP r = v)
     \<and> (\<not> is_truthy (js_get data ''ip'') \<longrightarrow> \<not> is_truthy (js_get data ''origin'')
            \<longrightarrow> \<not> is_truthy (js_get data ''query'') \<longrightarrow> publicIP r = JStr ''Unable to determine'')
     \<and> ipService r = Some service
     \<and> error r = None
     \<and> country r = (if is_truthy (js_get data ''country'') then js_get data ''country'' else None)
     \<and> city r = (if is_truthy (js_get data ''city'') then js_get data ''city'' else None)
     \<and> region r = (if is_truthy (js_get data ''region'') then js_get data ''region'' else None)
     \<and> organization r = (if is_truthy (js_get data ''org'') then js_get data ''org'' else None)
     \<and> autonomous_system r = (if is_truthy (js_get data ''as'') then js_get data ''as'' else None)"
    by blast
  from assms(1) have "\<forall>e \<in> set pre. isl (attempt (fst e) (snd e))"
    by (simp add: attempt_fails_iff)
  from resolve_first_success [OF this r, of post None] rest show ?thesis by blast
qed

theorem first_valid_response_wins_witness:
  "resolve [(''https://api.ipify.org?format=json'', Rejected),
            (''https://httpbin.org/ip'', Response 200 (Some (JObj [(''origin'', JStr ''203.0.113.5'')]))),
            (''https://api.myip.com'', Response 200 (Some (JObj [(''ip'', JStr ''198.51.100.7'')])))] None
   = (\<lparr>publicIP = JStr ''203.0.113.5'', ipService = Some ''https://httpbin.org/ip'',
       headers = Some [], country = None, city = None, region = None, organization = None,
       autonomous_system = None, error = None\<rparr>,
      [''https://api.ipify.org?format=json'', ''https://httpbin.org/ip''])"
proof -
  have h1: "\<forall>e \<in> set [(''https://api.ipify.org?format=json'', Rejected)].
      snd e = Rejected \<or> (\<exists>status. snd e = Response status None)
        \<or> (\<exists>status. snd e = Response status (Some JNull))"
    by simp
  have h2: "JObj [(''origin'', JStr ''203.0.113.5'')] \<noteq> JNull" by simp
  show ?thesis
    using first_valid_response_wins [OF h1 h2, of "''https://httpbin.org/ip''" 200
      "[(''https://api.myip.com'', Response 200 (Some (JObj [(''ip'', JStr ''198.51.100.7'')])))]"]
    by (simp add: resolve_def attempt_def js_get_def js_or_def js_or_str_def is_truthy_def
        when_truthy_def)
qed

text \<open>
  C1 as stated fails where the first entry fails by a status that is no success: the
  first service answers 429 with a JSON body that has no address, the second would
  answer \<^verbatim>\<open>{"origin": "203.0.113.5"}\<close>. The resolver stops at the first service, with
  the placeholder as public IP and the first URL as source, and never requests the
  second.
\<close>

theorem first_valid_response_wins_counterexample:
  "resolve [(''https://ipapi.co/json/'',
               Response 429 (Some (JObj [(''error'', JBool True),
                                         (''reason'', JStr ''RateLimited'')]))),
            (''https://httpbin.org/ip'',
               Response 200 (Some (JObj [(''origin'', JStr ''203.0.113.5'')])))]
      None
   = (\<lparr>publicIP = JStr ''Unable to determine'',
       ipService = Some ''https://ipapi.co/json/'',
       headers = Some [], country = None, city = None, region = None, organization = None,
       autonomous_system = None, error = None\<rparr>,
      [''https://ipapi.co/json/''])"
  by (simp add: resolve_def attempt_def js_get_def js_or_def js_or_str_def is_truthy_def
      when_truthy_def)

text \<open>
  C2, amended. The URLs that the resolver requests are a prefix of the service list: it
  takes the entries in order and sends each of them one request, with no retry. Where
  entries at the head of the list fail because the fetch rejects (a network error, or a
  request that the browser gives up), the body is not JSON, or the body is \<^verbatim>\<open>null\<close>, the
  resolver goes on with the entries after them. The status of a response is not read: a
  response is treated the same under any two statuses, and the resolver stops at a
  response whose body parses to a value other than \<^verbatim>\<open>null\<close>, whatever its status.
\<close>

theorem one_request_per_entry:
  "prefix (snd (resolve entries net)) (map fst entries)
   \<and> (\<forall>pre rest.
        entries = pre @ rest
        \<and> (\<forall>e \<in> set pre. snd e = Rejected \<or> (\<exists>status. snd e = Response status None)
               \<or> (\<exists>status. snd e = Response status (Some JNull)))
        \<longrightarrow> resolve entries net
              = (fst (resolve rest net), map fst pre @ snd (resolve rest net)))
   \<and> (\<forall>service status status' body.
        attempt service (Response status body) = attempt service (Response status' body))
   \<and> (\<forall>service status data rest.
        data \<noteq> JNull
        \<longrightarrow> snd (resolve ((service, Response status (Some data)) # rest) net) = [service])"
proof -
  have a: "prefix (snd (resolve entries net)) (map fst entries)"
    by (simp add: resolve_requests requests_prefix)
  have b: "resolve entries net = (fst (resolve rest net), map fst pre @ snd (resolve rest net))"
    if "entries = pre @ rest"
      and "\<forall>e \<in> set pre. snd e = Rejected \<or> (\<exists>status. snd e = Response status None)
               \<or> (\<exists>status. snd e = Response status (Some JNull))"
    for pre rest
  proof -
    from that(2) have "\<forall>e \<in> set pre. isl (attempt (fst e) (snd e))"
      by (simp add: attempt_fails_iff)
    then show ?thesis unfolding that(1) by (rule resolve_skip_failed)
  qed
  have c: "attempt service (Response status body) = attempt service (Response status' body)"
    for service status status' body
    by (simp add: attempt_def)
  have d: "snd (resolve ((service, Response status (Some data)) # rest) net) = [service]"
    if "data \<noteq> JNull" for service status data rest
    using that by (simp add: resolve_requests attempt_def)
  show ?thesis
  proof (intro conjI allI impI)
    show "prefix (snd (resolve entries net)) (map fst entries)" by (rule a)
  next
    fix pre rest
    assume "entries = pre @ rest
        \<and> (\<forall>e \<in> set pre. snd e = Rejected \<or> (\<exists>status. snd e = Response status None)
               \<or> (\<exists>status. snd e = Response status (Some JNull)))"
    then show "resolve entries net
        = (fst (resolve rest net), map fst pre @ snd (resolve rest net))"
      using b [of pre rest] by simp
  next
    fix service status status' body
    show "attempt service (Response status body) = attempt service (Response status' body)"
      by (rule c)
  next
    fix service status data rest
    assume "data \<noteq> JNull"
    then show "snd (resolve ((service, Response status (Some data)) # rest) net) = [service]"
      by (rule d)
  qed
qed

theorem one_request_per_entry_witness:
  "resolve [(''https://api.ipify.org?format=json'', Rejected),
            (''https://httpbin.org/ip'', Response 200 None),
            (''https://api.myip.com'', Response 200 (Some JNull)),
            (''https://ipapi.co/json/'', Response 200 (Some (JObj [(''ip'', JStr ''203.0.113.5'')])))]
      None
   = (\<lparr>publicIP = JStr ''203.0.113.5'', ipService = Some ''https://ipapi.co/json/'',
       headers = Some [], country = None, city = None, region = None, organization = None,
       autonomous_system = None, error = None\<rparr>,
      [''https://api.ipify.org?format=json'', ''https://httpbin.org/ip'',
       ''https://api.myip.com'', ''https://ipapi.co/json/''])"
proof -
  let ?pre = "[(''https://api.ipify.org?format=json'', Rejected),
            (''https://httpbin.org/ip'', Response 200 None),
            (''https://api.myip.com'', Response 200 (Some JNull))]"
  let ?rest = "[(''https://ipapi.co/json/'', Response 200 (Some (JObj [(''ip'', JStr ''203.0.113.5'')])))]"
  have h: "\<forall>e \<in> set ?pre. snd e = Rejected \<or> (\<exists>status. snd e = Response status None)
               \<or> (\<exists>status. snd e = Response status (Some JNull))"
    by simp
  from one_request_per_entry [of "?pre @ ?rest" None] h
  have "resolve (?pre @ ?rest) None
      = (fst (resolve ?rest None), map fst ?pre @ snd (resolve ?rest None))"
    by blast
  then show ?thesis
    by (simp add: resolve_def attempt_def js_get_def js_or_def js_or_str_def is_truthy_def
        when_truthy_def)
qed

text \<open>
  C2 as stated fails: the first service answers with status 500 and a JSON body, and the
  resolver takes this answer as its result and never requests the second service.
\<close>

theorem one_request_per_entry_counterexample:
  "resolve [(''https://api.ipify.org?format=json'',
               Response 500 (Some (JObj [(''error'', JStr ''Internal Server Error'')]))),
            (''https://httpbin.org/ip'',
               Response 200 (Some (JObj [(''origin'', JStr ''203.0.113.5'')])))]
      None
   = (\<lparr>publicIP = JStr ''Unable to determine'',
       ipService = Some ''https://api.ipify.org?format=json'',
       headers = Some [], country = None, city = None, region = None, organization = None,
       autonomous_system = None, error = None\<rparr>,
      [''https://api.ipify.org?format=json''])"
  by (simp add: resolve_def attempt_def js_get_def js_or_def js_or_str_def is_truthy_def
      when_truthy_def)

text \<open>
  C3, amended. Take a run in which every request settles. If every entry fails in the
  sense of the code (its fetch rejects, its body is not JSON, or its body is \<^verbatim>\<open>null\<close>),
  the resolver, started as the constructor leaves \<^verbatim>\<open>this.data\<close>, returns the failure
  marker after one request to every entry. The marker is a constant: its public IP is a
  fixed message and it names no source service. No successful result equals it, since
  a successful result has a source service and no \<^verbatim>\<open>error\<close>. An answer with a status
  that is no success and a body that parses to a value other than \<^verbatim>\<open>null\<close> is not among
  these failures.
\<close>

theorem all_failed_gives_FailureMarker:
  assumes "\<forall>e \<in> set entries. snd e = Rejected \<or> (\<exists>status. snd e = Response status None)
               \<or> (\<exists>status. snd e = Response status (Some JNull))"
  shows "resolve entries None = (FailureMarker, map fst entries)
     \<and> publicIP FailureMarker = JStr ''Unable to determine (CORS/Network restrictions)''
     \<and> error FailureMarker = Some ''All IP services failed''
     \<and> ipService FailureMarker = None
     \<and> (\<forall>service out r. attempt service out = Inr r
           \<longrightarrow> r \<noteq> FailureMarker \<and> error r = None \<and> ipService r = Some service)"
proof -
  from assms have "\<forall>e \<in> set entries. isl (attempt (fst e) (snd e))"
    by (simp add: attempt_fails_iff)
  then have a: "resolve entries None = (FailureMarker, map fst entries)"
    by (rule resolve_all_failed)
  have b: "r \<noteq> FailureMarker \<and> error r = None \<and> ipService r = Some service"
    if "attempt service out = Inr r" for service out r
    using that
    by (auto simp: attempt_def FailureMarker_def split: outcome.splits option.splits if_splits)
  from a b show ?thesis by (simp add: FailureMarker_def)
qed

theorem all_failed_gives_FailureMarker_witness:
  "fst (gatherNetworkInfo (\<lambda>service. Rejected) \<lparr>browser = None, system = None, network = None\<rparr>)
     = \<lparr>browser = None, system = None, network = Some FailureMarker\<rparr>
   \<and> snd (gatherNetworkInfo (\<lambda>service. Rejected) \<lparr>browser = None, system = None, network = None\<rparr>)
     = ipServices"
proof -
  let ?entries = "map (\<lambda>service. (service, Rejected)) ipServices"
  have h: "\<forall>e \<in> set ?entries. snd e = Rejected \<or> (\<exists>status. snd e = Response status None)
               \<or> (\<exists>status. snd e = Response status (Some JNull))"
    by simp
  from all_failed_gives_FailureMarker [OF h]
  have "resolve ?entries None = (FailureMarker, map fst ?entries)" by blast
  then show ?thesis by (simp add: gatherNetworkInfo_def comp_def)
qed

text \<open>
  C3 as stated fails where the entries fail by their status: every service answers with
  a status that is no success and a JSON body. The result is the record of a
  successful lookup from the first service, with the placeholder as public IP and no
  \<^verbatim>\<open>error\<close>; it is not the failure marker, and only the first service is requested.
\<close>

theorem all_failed_gives_FailureMarker_counterexample:
  "resolve [(''https://api.ipify.org?format=json'',
               Response 503 (Some (JObj [(''message'', JStr ''Service Unavailable'')]))),
            (''https://httpbin.org/ip'',
               Response 502 (Some (JObj [(''message'', JStr ''Bad Gateway'')]))),
            (''https://api.myip.com'',
               Response 404 (Some (JObj [(''message'', JStr ''Not Found'')]))),
            (''https://ipapi.co/json/'',
               Response 429 (Some (JObj [(''error'', JBool True)])))]
      None
   = (\<lparr>publicIP = JStr ''Unable to determine'',
       ipService = Some ''https://api.ipify.org?format=json'',
       headers = Some [], country = None, city = None, region = None, organization = None,
       autonomous_system = None, error = None\<rparr>,
      [''https://api.ipify.org?format=json''])
   \<and> \<lparr>publicIP = JStr ''Unable to determine'',
       ipService = Some ''https://api.ipify.org?format=json'',
       headers = Some [], country = None, city = None, region = None, organization = None,
       autonomous_system = None, error = None\<rparr> \<noteq> FailureMarker"
  by (simp add: resolve_def attempt_def js_get_def js_or_def js_or_str_def is_truthy_def
      when_truthy_def FailureMarker_def)

text \<open>
  C9, amended. Let the entries before some entry all fail, and let that entry answer
  with a body that parses to a JSON value other than \<^verbatim>\<open>null\<close> and has none of the
  properties \<^verbatim>\<open>ip\<close>, \<^verbatim>\<open>origin\<close> and \<^verbatim>\<open>query\<close>. Then the resolver stops there and requests
  no later entry, the source service is that entry's URL, the public IP is the
  placeholder \<^verbatim>\<open>Unable to determine\<close>, and the result is not the failure marker.
\<close>

theorem keyless_body_is_terminal:
  assumes "\<forall>e \<in> set pre. snd e = Rejected \<or> (\<exists>status. snd e = Response status None)
               \<or> (\<exists>status. snd e = Response status (Some JNull))"
      and "data \<noteq> JNull"
      and "js_get data ''ip'' = None" and "js_get data ''origin'' = None"
      and "js_get data ''query'' = None"
  shows "\<exists>r. resolve (pre @ (service, Response status (Some data)) # post) None
            = (r, map fst pre @ [service])
     \<and> publicIP r = JStr ''Unable to determine''
     \<and> ipService r = Some service
     \<and> error r = None
     \<and> r \<noteq> FailureMarker"
proof -
  from assms(2) obtain r where r: "attempt service (Response status (Some data)) = Inr r"
    by (auto simp: attempt_def)
  from r assms(2-5) have "publicIP r = JStr ''Unable to determine''"
    by (auto simp: attempt_def js_or_def js_or_str_def is_truthy_def)
  moreover from r have "ipService r = Some service \<and> error r = None \<and> r \<noteq> FailureMarker"
    by (auto simp: attempt_def FailureMarker_def split: if_splits)
  moreover from assms(1) have "\<forall>e \<in> set pre. isl (attempt (fst e) (snd e))"
    by (simp add: attempt_fails_iff)
  from resolve_first_success [OF this r, of post None]
  have "resolve (pre @ (service, Response status (Some data)) # post) None
      = (r, map fst pre @ [service])" .
  ultimately show ?thesis by blast
qed

theorem keyless_body_is_terminal_witness:
  "resolve [(''https://api.ipify.org?format=json'', Rejected),
            (''https://httpbin.org/ip'', Response 200 (Some (JObj [(''address'', JStr ''203.0.113.5'')]))),
            (''https://api.myip.com'', Response 200 (Some (JObj [(''ip'', JStr ''198.51.100.7'')])))]
      None
   = (\<lparr>publicIP = JStr ''Unable to determine'', ipService = Some ''https://httpbin.org/ip'',
       headers = Some [], country = None, city = None, region = None, organization = None,
       autonomous_system = None, error = None\<rparr>,
      [''https://api.ipify.org?format=json'', ''https://httpbin.org/ip''])"
proof -
  let ?data = "JObj [(''address'', JStr ''203.0.113.5'')]"
  have h1: "\<forall>e \<in> set [(''https://api.ipify.org?format=json'', Rejected)].
      snd e = Rejected \<or> (\<exists>status. snd e = Response status None)
        \<or> (\<exists>status. snd e = Response status (Some JNull))"
    by simp
  have h2: "?data \<noteq> JNull" by simp
  have h3: "js_get ?data ''ip'' = None" by (simp add: js_get_def)
  have h4: "js_get ?data ''origin'' = None" by (simp add: js_get_def)
  have h5: "js_get ?data ''query'' = None" by (simp add: js_get_def)
  show ?thesis
    using keyless_body_is_terminal [OF h1 h2 h3 h4 h5, of "''https://httpbin.org/ip''" 200
      "[(''https://api.myip.com'', Response 200 (Some (JObj [(''ip'', JStr ''198.51.100.7'')])))]"]
    by (simp add: resolve_def attempt_def js_get_def js_or_def js_or_str_def is_truthy_def
        when_truthy_def)
qed

text \<open>
  C9 as stated fails for the body \<^verbatim>\<open>null\<close>: it parses as JSON and has no keys, yet the
  resolver goes on to the next service and here ends with the failure marker.
\<close>

theorem keyless_body_is_terminal_counterexample:
  "resolve [(''https://api.ipify.org?format=json'', Response 200 (Some JNull)),
            (''https://httpbin.org/ip'', Rejected)] None
   = (FailureMarker, [''https://api.ipify.org?format=json'', ''https://httpbin.org/ip''])"
  by (simp add: resolve_def attempt_def)

section \<open>Properties of the classifier\<close>

text \<open>
  C4, as amended. Let the user agent contain neither \<^verbatim>\<open>Firefox\<close> nor \<^verbatim>\<open>Chromium\<close>.
  If it contains \<^verbatim>\<open>Chrome\<close>, the browser name is Chrome, whether or not it also
  contains \<^verbatim>\<open>Safari\<close>, \<^verbatim>\<open>Edge\<close>, \<^verbatim>\<open>Opera\<close> or \<^verbatim>\<open>OPR\<close>. If it contains
  \<^verbatim>\<open>Chrome/120.0\<close> at a place that no digit follows and that no match of
  \<^verbatim>\<open>/Chrome\/(\d+\.\d+)/\<close> precedes, the browser version is \<^verbatim>\<open>120.0\<close>.
\<close>

theorem Chrome_name_and_version:
  assumes "\<not> str_includes ua ''Firefox''" and "\<not> str_includes ua ''Chromium''"
  shows "(str_includes ua ''Chrome'' \<longrightarrow> getBrowserName ua = ''Chrome'')
     \<and> (\<forall>pre post. ua = pre @ ''Chrome/120.0'' @ post \<and> js_match re_Chrome pre = None
            \<and> \<not> starts_with_digit post
          \<longrightarrow> getBrowserName ua = ''Chrome'' \<and> getBrowserVersion ua = ''120.0'')"
proof -
  have name: "getBrowserName ua = ''Chrome''" if "str_includes ua ''Chrome''"
    using that assms by (simp add: getBrowserName_def)
  have version: "getBrowserName ua = ''Chrome'' \<and> getBrowserVersion ua = ''120.0''"
    if ua: "ua = pre @ ''Chrome/120.0'' @ post" and pre: "js_match re_Chrome pre = None"
      and post: "\<not> starts_with_digit post" for pre post
  proof -
    have "str_includes ua (''Chrome'' @ ''/120.0'')"
      unfolding ua using str_includes_append [of pre "''Chrome/120.0''" post] by simp
    then have "str_includes ua ''Chrome''" by (rule str_includes_part)
    then have n: "getBrowserName ua = ''Chrome''" by (rule name)
    have "js_match re_Chrome (pre @ CHR ''C'' # ''hrome/120.0'' @ post)
        = js_match re_Chrome (CHR ''C'' # ''hrome/120.0'' @ post)"
      by (rule js_match_skip [OF _ _ _ pre, where l = "''Chrome/''"])
         (simp_all add: re_Chrome_def major_minor_def is_digit_def)
    moreover have "match_at re_Chrome (''Chrome/120.0'' @ post) = Some ''120.0''"
      using post by (rule match_Chrome_here)
    ultimately have "js_match re_Chrome ua = Some ''120.0''"
      unfolding ua by simp
    with n show ?thesis by (simp add: getBrowserVersion_def or_Unknown_def)
  qed
  from name version show ?thesis by blast
qed

theorem Chrome_name_and_version_witness:
  "getBrowserName ''Mozilla/5.0 (Windows NT 10.0; Win64; x64) AppleWebKit/537.36 (KHTML, like Gecko) Chrome/120.0.0.0 Safari/537.36'' = ''Chrome''
   \<and> getBrowserVersion ''Mozilla/5.0 (Windows NT 10.0; Win64; x64) AppleWebKit/537.36 (KHTML, like Gecko) Chrome/120.0.0.0 Safari/537.36'' = ''120.0''"
proof -
  let ?pre = "''Mozilla/5.0 (Windows NT 10.0; Win64; x64) AppleWebKit/537.36 (KHTML, like Gecko) ''"
  let ?post = "''.0.0 Safari/537.36''"
  let ?ua = "?pre @ ''Chrome/120.0'' @ ?post"
  have h1: "\<not> str_includes ?ua ''Firefox''" by simp
  have h2: "\<not> str_includes ?ua ''Chromium''" by simp
  have h3: "js_match re_Chrome ?pre = None"
    by (simp add: re_Chrome_def match_at_def)
  have h4: "\<not> starts_with_digit ?post" by (simp add: is_digit_def)
  from Chrome_name_and_version [OF h1 h2] h3 h4
  have "getBrowserName ?ua = ''Chrome'' \<and> getBrowserVersion ?ua = ''120.0''" by blast
  then show ?thesis by simp
qed

text \<open>
  C4 as stated fails on three inputs that contain \<^verbatim>\<open>Chrome/120.0\<close> and none of
  \<^verbatim>\<open>Chromium\<close>, \<^verbatim>\<open>Edge\<close>, \<^verbatim>\<open>OPR\<close>, \<^verbatim>\<open>Opera\<close>: one that contains \<^verbatim>\<open>Firefox\<close>, which is
  tested first, one with a further digit after the token, and one with an earlier
  match of the version pattern.
\<close>

theorem Chrome_name_and_version_counterexample:
  "str_includes ''Mozilla/5.0 Firefox/1.0 Chrome/120.0'' ''Chrome/120.0''
   \<and> \<not> str_includes ''Mozilla/5.0 Firefox/1.0 Chrome/120.0'' ''Chromium''
   \<and> \<not> str_includes ''Mozilla/5.0 Firefox/1.0 Chrome/120.0'' ''Edge''
   \<and> \<not> str_includes ''Mozilla/5.0 Firefox/1.0 Chrome/120.0'' ''OPR''
   \<and> \<not> str_includes ''Mozilla/5.0 Firefox/1.0 Chrome/120.0'' ''Opera''
   \<and> getBrowserName ''Mozilla/5.0 Firefox/1.0 Chrome/120.0'' = ''Firefox''
   \<and> getBrowserVersion ''Mozilla/5.0 Firefox/1.0 Chrome/120.0'' = ''1.0''
   \<and> str_includes ''Mozilla/5.0 Chrome/120.05'' ''Chrome/120.0''
   \<and> getBrowserName ''Mozilla/5.0 Chrome/120.05'' = ''Chrome''
   \<and> getBrowserVersion ''Mozilla/5.0 Chrome/120.05'' = ''120.05''
   \<and> str_includes ''Mozilla/5.0 Chrome/1.2 Chrome/120.0'' ''Chrome/120.0''
   \<and> getBrowserName ''Mozilla/5.0 Chrome/1.2 Chrome/120.0'' = ''Chrome''
   \<and> getBrowserVersion ''Mozilla/5.0 Chrome/1.2 Chrome/120.0'' = ''1.2''"
  by (simp add: getBrowserName_def getBrowserVersion_def or_Unknown_def re_Firefox_def
      re_Chrome_def match_at_def major_minor_def is_digit_def)

text \<open>
  C5. On the empty string every one of the seven fields is \<^verbatim>\<open>Unknown\<close>. For any user
  agent, a name is \<^verbatim>\<open>Unknown\<close> when none of the tokens of its function occurs, and a
  version is \<^verbatim>\<open>Unknown\<close> when none of its patterns has a match. The functions are total,
  so no input makes them raise.
\<close>

theorem unmatched_is_Unknown:
  "classify [] = [''Unknown'', ''Unknown'', ''Unknown'', ''Unknown'', ''Unknown'', ''Unknown'',
                 ''Unknown'']
   \<and> ((\<forall>t \<in> set [''Firefox'', ''Chrome'', ''Chromium'', ''Safari'', ''Edge'', ''Opera'', ''OPR'',
                    ''Trident'']. \<not> str_includes ua t)
        \<longrightarrow> getBrowserName ua = ''Unknown'' \<and> getBrowserVersion ua = ''Unknown'')
   \<and> ((\<forall>p \<in> set [re_Chrome, re_Firefox, re_Version, re_Edge, re_Opera]. js_match p ua = None)
        \<longrightarrow> getBrowserVersion ua = ''Unknown'')
   \<and> ((\<forall>t \<in> set [''Blink'', ''WebKit'', ''Gecko'', ''Trident'', ''EdgeHTML'']. \<not> str_includes ua t)
        \<longrightarrow> getEngineName ua = ''Unknown'')
   \<and> ((\<forall>p \<in> set [re_WebKit, re_Gecko]. js_match p ua = None)
        \<longrightarrow> getEngineVersion ua = ''Unknown'')
   \<and> ((\<forall>t \<in> set [''Windows'', ''Mac OS X'', ''Linux'', ''Android'', ''iOS'', ''iPad''].
          \<not> str_includes ua t)
        \<longrightarrow> getOperatingSystem ua = ''Unknown'')
   \<and> ((\<forall>p \<in> set [re_WindowsNT, re_MacOSX, re_Android, re_iOS]. js_match p ua = None)
        \<longrightarrow> getOSVersion ua = ''Unknown'')
   \<and> ((\<forall>t \<in> set [''WOW64'', ''Win64'', ''x86_64'', ''ARM'', ''x86'']. \<not> str_includes ua t)
        \<longrightarrow> getArchitecture ua = ''Unknown'')"
proof -
  have empty: "classify [] = [''Unknown'', ''Unknown'', ''Unknown'', ''Unknown'', ''Unknown'',
      ''Unknown'', ''Unknown'']"
    by (simp add: classify_def getBrowserName_def getBrowserVersion_def getEngineName_def
        getEngineVersion_def getOperatingSystem_def getOSVersion_def getArchitecture_def
        match_at_def re_WebKit_def re_Gecko_def re_WindowsNT_def re_MacOSX_def re_Android_def
        re_iOS_def)
  have bname: "getBrowserName ua = ''Unknown'' \<and> getBrowserVersion ua = ''Unknown''"
    if "\<forall>t \<in> set [''Firefox'', ''Chrome'', ''Chromium'', ''Safari'', ''Edge'', ''Opera'', ''OPR'',
                    ''Trident'']. \<not> str_includes ua t"
    using that by (simp add: getBrowserName_def getBrowserVersion_def)
  have bversion: "getBrowserVersion ua = ''Unknown''"
    if "\<forall>p \<in> set [re_Chrome, re_Firefox, re_Version, re_Edge, re_Opera]. js_match p ua = None"
    using that by (simp add: getBrowserVersion_def or_Unknown_def Let_def)
  have ename: "getEngineName ua = ''Unknown''"
    if "\<forall>t \<in> set [''Blink'', ''WebKit'', ''Gecko'', ''Trident'', ''EdgeHTML'']. \<not> str_includes ua t"
    using that by (simp add: getEngineName_def)
  have eversion: "getEngineVersion ua = ''Unknown''"
    if "\<forall>p \<in> set [re_WebKit, re_Gecko]. js_match p ua = None"
    using that by (simp add: getEngineVersion_def)
  have "\<not> str_includes ua (''Windows'' @ w)" if "\<not> str_includes ua ''Windows''" for w
    using that by (rule str_includes_longer)
  from this [of "'' NT 10.0''"] this [of "'' NT 6.3''"] this [of "'' NT 6.2''"]
      this [of "'' NT 6.1''"]
  have oname: "getOperatingSystem ua = ''Unknown''"
    if "\<forall>t \<in> set [''Windows'', ''Mac OS X'', ''Linux'', ''Android'', ''iOS'', ''iPad''].
          \<not> str_includes ua t"
    using that by (simp add: getOperatingSystem_def)
  have oversion: "getOSVersion ua = ''Unknown''"
    if "\<forall>p \<in> set [re_WindowsNT, re_MacOSX, re_Android, re_iOS]. js_match p ua = None"
    using that by (simp add: getOSVersion_def)
  have "\<not> str_includes ua (''x86'' @ w)" if "\<not> str_includes ua ''x86''" for w
    using that by (rule str_includes_longer)
  from this [of "''_64''"]
  have arch: "getArchitecture ua = ''Unknown''"
    if "\<forall>t \<in> set [''WOW64'', ''Win64'', ''x86_64'', ''ARM'', ''x86'']. \<not> str_includes ua t"
    using that by (simp add: getArchitecture_def)
  from empty bname bversion ename eversion oname oversion arch show ?thesis by blast
qed

theorem unmatched_is_Unknown_witness:
  "classify ''curl/8.4.0'' = [''Unknown'', ''Unknown'', ''Unknown'', ''Unknown'', ''Unknown'',
      ''Unknown'', ''Unknown'']"
proof -
  let ?ua = "''curl/8.4.0''"
  have h1: "\<forall>t \<in> set [''Firefox'', ''Chrome'', ''Chromium'', ''Safari'', ''Edge'', ''Opera'', ''OPR'',
                    ''Trident'']. \<not> str_includes ?ua t" by simp
  have h2: "\<forall>p \<in> set [re_Chrome, re_Firefox, re_Version, re_Edge, re_Opera]. js_match p ?ua = None"
    by (simp add: re_Chrome_def re_Firefox_def re_Version_def re_Edge_def re_Opera_def
        match_at_def)
  have h3: "\<forall>t \<in> set [''Blink'', ''WebKit'', ''Gecko'', ''Trident'', ''EdgeHTML'']. \<not> str_includes ?ua t"
    by simp
  have h4: "\<forall>p \<in> set [re_WebKit, re_Gecko]. js_match p ?ua = None"
    by (simp add: re_WebKit_def re_Gecko_def match_at_def)
  have h5: "\<forall>t \<in> set [''Windows'', ''Mac OS X'', ''Linux'', ''Android'', ''iOS'', ''iPad''].
          \<not> str_includes ?ua t" by simp
  have h6: "\<forall>p \<in> set [re_WindowsNT, re_MacOSX, re_Android, re_iOS]. js_match p ?ua = None"
    by (simp add: re_WindowsNT_def re_MacOSX_def re_Android_def re_iOS_def match_at_def)
  have h7: "\<forall>t \<in> set [''WOW64'', ''Win64'', ''x86_64'', ''ARM'', ''x86'']. \<not> str_includes ?ua t"
    by simp
  from unmatched_is_Unknown [of ?ua] h1 h2 h3 h4 h5 h6 h7
  show ?thesis unfolding classify_def by blast
qed

text \<open>
  C6, amended. A user agent that contains \<^verbatim>\<open>Mac OS X 10_15_7\<close> and does not contain
  \<^verbatim>\<open>Windows\<close> has the OS name macOS. If it contains no \<^verbatim>\<open>Windows NT\<close>, and it contains
  \<^verbatim>\<open>Mac OS X 10_15_7\<close> at a place that no digit follows and that no match of
  \<^verbatim>\<open>/Mac OS X (\d+[._]\d+[._]\d+)/\<close> precedes, the OS version is \<^verbatim>\<open>10.15.7\<close>, with the
  underscores turned into dots.
\<close>

theorem macOS_name_and_version:
  "(str_includes ua ''Mac OS X 10_15_7'' \<and> \<not> str_includes ua ''Windows''
      \<longrightarrow> getOperatingSystem ua = ''macOS'')
   \<and> (\<forall>pre post. ua = pre @ ''Mac OS X 10_15_7'' @ post \<and> \<not> str_includes ua ''Windows NT''
          \<and> js_match re_MacOSX pre = None \<and> \<not> starts_with_digit post
        \<longrightarrow> getOSVersion ua = ''10.15.7'')"
proof -
  have name: "getOperatingSystem ua = ''macOS''"
    if mac: "str_includes ua ''Mac OS X 10_15_7''" and win: "\<not> str_includes ua ''Windows''"
  proof -
    from mac have "str_includes ua (''Mac OS X'' @ '' 10_15_7'')" by simp
    then have m: "str_includes ua ''Mac OS X''" by (rule str_includes_part)
    have "\<not> str_includes ua (''Windows'' @ w)" for w
      using win by (rule str_includes_longer)
    from this [of "'' NT 10.0''"] this [of "'' NT 6.3''"] this [of "'' NT 6.2''"]
      this [of "'' NT 6.1''"] win m
    show ?thesis by (simp add: getOperatingSystem_def)
  qed
  have version: "getOSVersion ua = ''10.15.7''"
    if ua: "ua = pre @ ''Mac OS X 10_15_7'' @ post" and win: "\<not> str_includes ua ''Windows NT''"
      and pre: "js_match re_MacOSX pre = None" and post: "\<not> starts_with_digit post"
    for pre post
  proof -
    from win have "\<not> str_includes ua (''Windows NT'' @ '' '')"
      by (rule str_includes_longer)
    then have w: "js_match re_WindowsNT ua = None"
      by (intro no_token_no_match [where l = "''Windows NT ''"]) (simp_all add: re_WindowsNT_def)
    have "js_match re_MacOSX (pre @ CHR ''M'' # ''ac OS X 10_15_7'' @ post)
        = js_match re_MacOSX (CHR ''M'' # ''ac OS X 10_15_7'' @ post)"
      by (rule js_match_skip [OF _ _ _ pre, where l = "''Mac OS X ''"])
         (simp_all add: re_MacOSX_def is_digit_def)
    moreover have "match_at re_MacOSX (''Mac OS X 10_15_7'' @ post) = Some ''10_15_7''"
      using post by (rule match_MacOSX_here)
    ultimately have "js_match re_MacOSX ua = Some ''10_15_7''"
      unfolding ua by simp
    with w show ?thesis by (simp add: getOSVersion_def replace_underscores_def)
  qed
  from name version show ?thesis by blast
qed

theorem macOS_name_and_version_witness:
  "getOperatingSystem ''Mozilla/5.0 (Macintosh; Intel Mac OS X 10_15_7) AppleWebKit/605.1.15 (KHTML, like Gecko) Version/17.1 Safari/605.1.15'' = ''macOS''
   \<and> getOSVersion ''Mozilla/5.0 (Macintosh; Intel Mac OS X 10_15_7) AppleWebKit/605.1.15 (KHTML, like Gecko) Version/17.1 Safari/605.1.15'' = ''10.15.7''"
proof -
  let ?pre = "''Mozilla/5.0 (Macintosh; Intel ''"
  let ?post = "'') AppleWebKit/605.1.15 (KHTML, like Gecko) Version/17.1 Safari/605.1.15''"
  let ?ua = "?pre @ ''Mac OS X 10_15_7'' @ ?post"
  have h1: "str_includes ?ua ''Mac OS X 10_15_7''" by simp
  have h2: "\<not> str_includes ?ua ''Windows''" by simp
  have h3: "\<not> str_includes ?ua ''Windows NT''" by simp
  have h4: "js_match re_MacOSX ?pre = None" by (simp add: re_MacOSX_def match_at_def)
  have h5: "\<not> starts_with_digit ?post" by (simp add: is_digit_def)
  from macOS_name_and_version [of ?ua] h1 h2 h3 h4 h5
  have "getOperatingSystem ?ua = ''macOS'' \<and> getOSVersion ?ua = ''10.15.7''" by blast
  then show ?thesis by simp
qed

text \<open>
  C6 as stated fails on three inputs that contain \<^verbatim>\<open>Mac OS X 10_15_7\<close> and no
  \<^verbatim>\<open>Windows NT\<close>: one that contains \<^verbatim>\<open>Windows\<close>, one with a further digit after the
  token, and one with an earlier match of the version pattern.
\<close>

theorem macOS_name_and_version_counterexample:
  "str_includes ''Mozilla/5.0 (Windows; U; Intel Mac OS X 10_15_7)'' ''Mac OS X 10_15_7''
   \<and> \<not> str_includes ''Mozilla/5.0 (Windows; U; Intel Mac OS X 10_15_7)'' ''Windows NT''
   \<and> getOperatingSystem ''Mozilla/5.0 (Windows; U; Intel Mac OS X 10_15_7)'' = ''Windows''
   \<and> str_includes ''Mozilla/5.0 (Macintosh; Intel Mac OS X 10_15_70)'' ''Mac OS X 10_15_7''
   \<and> \<not> str_includes ''Mozilla/5.0 (Macintosh; Intel Mac OS X 10_15_70)'' ''Windows NT''
   \<and> getOSVersion ''Mozilla/5.0 (Macintosh; Intel Mac OS X 10_15_70)'' = ''10.15.70''
   \<and> str_includes ''(like Mac OS X 10_9_5) (Intel Mac OS X 10_15_7)'' ''Mac OS X 10_15_7''
   \<and> \<not> str_includes ''(like Mac OS X 10_9_5) (Intel Mac OS X 10_15_7)'' ''Windows NT''
   \<and> getOSVersion ''(like Mac OS X 10_9_5) (Intel Mac OS X 10_15_7)'' = ''10.9.5''"
  by (simp add: getOperatingSystem_def getOSVersion_def re_WindowsNT_def re_MacOSX_def
      match_at_def major_minor_def is_digit_def replace_underscores_def)

text \<open>
  C7, amended. A user agent that contains \<^verbatim>\<open>Android 13.0\<close> and none of \<^verbatim>\<open>Windows\<close>,
  \<^verbatim>\<open>Mac OS X\<close> and \<^verbatim>\<open>Linux\<close> has the OS name Android. If neither the Windows NT pattern
  nor the macOS pattern has a match in it, and it contains \<^verbatim>\<open>Android 13.0\<close> at a place
  that no digit follows and that no match of \<^verbatim>\<open>/Android (\d+\.\d+)/\<close> precedes, the OS
  version is \<^verbatim>\<open>13.0\<close>.
\<close>

theorem Android_name_and_version:
  "(str_includes ua ''Android 13.0'' \<and> \<not> str_includes ua ''Windows''
      \<and> \<not> str_includes ua ''Mac OS X'' \<and> \<not> str_includes ua ''Linux''
      \<longrightarrow> getOperatingSystem ua = ''Android'')
   \<and> (\<forall>pre post. ua = pre @ ''Android 13.0'' @ post
          \<and> js_match re_WindowsNT ua = None \<and> js_match re_MacOSX ua = None
          \<and> js_match re_Android pre = None \<and> \<not> starts_with_digit post
        \<longrightarrow> getOSVersion ua = ''13.0'')"
proof -
  have name: "getOperatingSystem ua = ''Android''"
    if a: "str_includes ua ''Android 13.0''" and win: "\<not> str_includes ua ''Windows''"
      and mac: "\<not> str_includes ua ''Mac OS X''" and lin: "\<not> str_includes ua ''Linux''"
  proof -
    from a have "str_includes ua (''Android'' @ '' 13.0'')" by simp
    then have m: "str_includes ua ''Android''" by (rule str_includes_part)
    have "\<not> str_includes ua (''Windows'' @ w)" for w
      using win by (rule str_includes_longer)
    from this [of "'' NT 10.0''"] this [of "'' NT 6.3''"] this [of "'' NT 6.2''"]
      this [of "'' NT 6.1''"] win mac lin m
    show ?thesis by (simp add: getOperatingSystem_def)
  qed
  have version: "getOSVersion ua = ''13.0''"
    if ua: "ua = pre @ ''Android 13.0'' @ post"
      and win: "js_match re_WindowsNT ua = None" and mac: "js_match re_MacOSX ua = None"
      and pre: "js_match re_Android pre = None" and post: "\<not> starts_with_digit post"
    for pre post
  proof -
    have "js_match re_Android (pre @ CHR ''A'' # ''ndroid 13.0'' @ post)
        = js_match re_Android (CHR ''A'' # ''ndroid 13.0'' @ post)"
      by (rule js_match_skip [OF _ _ _ pre, where l = "''Android ''"])
         (simp_all add: re_Android_def major_minor_def is_digit_def)
    moreover have "match_at re_Android (''Android 13.0'' @ post) = Some ''13.0''"
      using post by (rule match_Android_here)
    ultimately have "js_match re_Android ua = Some ''13.0''"
      unfolding ua by simp
    with win mac show ?thesis by (simp add: getOSVersion_def)
  qed
  from name version show ?thesis by blast
qed

theorem Android_name_and_version_witness:
  "getOperatingSystem ''Dalvik/2.1.0 (Android 13.0; Pixel 7 Build/TQ3A)'' = ''Android''
   \<and> getOSVersion ''Dalvik/2.1.0 (Android 13.0; Pixel 7 Build/TQ3A)'' = ''13.0''"
proof -
  let ?pre = "''Dalvik/2.1.0 (''"
  let ?post = "''; Pixel 7 Build/TQ3A)''"
  let ?ua = "?pre @ ''Android 13.0'' @ ?post"
  have h1: "str_includes ?ua ''Android 13.0''" by simp
  have h2: "\<not> str_includes ?ua ''Windows''" by simp
  have h3: "\<not> str_includes ?ua ''Mac OS X''" by simp
  have h4: "\<not> str_includes ?ua ''Linux''" by simp
  have h5: "js_match re_WindowsNT ?ua = None" by (simp add: re_WindowsNT_def match_at_def)
  have h6: "js_match re_MacOSX ?ua = None" by (simp add: re_MacOSX_def match_at_def)
  have h7: "js_match re_Android ?pre = None" by (simp add: re_Android_def match_at_def)
  have h8: "\<not> starts_with_digit ?post" by (simp add: is_digit_def)
  from Android_name_and_version [of ?ua] h1 h2 h3 h4 h5 h6 h7 h8
  have "getOperatingSystem ?ua = ''Android'' \<and> getOSVersion ?ua = ''13.0''" by blast
  then show ?thesis by simp
qed

text \<open>
  C7 as stated fails on inputs that contain \<^verbatim>\<open>Android 13.0\<close>: with \<^verbatim>\<open>Linux\<close> or
  \<^verbatim>\<open>Windows\<close> before it the OS name is that of the earlier test; with a further digit,
  an earlier Android token or a Windows NT token the version is another one.
\<close>

theorem Android_name_and_version_counterexample:
  "str_includes ''Mozilla/5.0 (Linux; Android 13.0; Pixel 7)'' ''Android 13.0''
   \<and> getOperatingSystem ''Mozilla/5.0 (Linux; Android 13.0; Pixel 7)'' = ''Linux''
   \<and> str_includes ''Mozilla/5.0 (Windows Phone 10.0; Android 13.0)'' ''Android 13.0''
   \<and> getOperatingSystem ''Mozilla/5.0 (Windows Phone 10.0; Android 13.0)'' = ''Windows''
   \<and> str_includes ''Dalvik/2.1.0 (Android 13.05)'' ''Android 13.0''
   \<and> getOSVersion ''Dalvik/2.1.0 (Android 13.05)'' = ''13.05''
   \<and> str_includes ''Dalvik/2.1.0 (Android 4.4; Android 13.0)'' ''Android 13.0''
   \<and> getOSVersion ''Dalvik/2.1.0 (Android 4.4; Android 13.0)'' = ''4.4''
   \<and> str_includes ''(Windows NT 6.1; Android 13.0)'' ''Android 13.0''
   \<and> getOSVersion ''(Windows NT 6.1; Android 13.0)'' = ''6.1''"
  by (simp add: getOperatingSystem_def getOSVersion_def re_WindowsNT_def re_MacOSX_def
      re_Android_def match_at_def major_minor_def is_digit_def replace_underscores_def)

text \<open>
  C8. The seven classification fields that \<^verbatim>\<open>gatherBrowserInfo\<close> and
  \<^verbatim>\<open>gatherSystemInfo\<close> store are a function of the user-agent string alone: two runs
  from any two states of \<^verbatim>\<open>this.data\<close>, on any two navigators that report the same user
  agent, store equal fields, namely those of \<open>classify\<close>.
\<close>

theorem classification_depends_on_userAgent_only:
  assumes "nav_userAgent nav1 = nav_userAgent nav2"
  shows "classified (gatherSystemInfo nav1 (gatherBrowserInfo nav1 d1))
           = classified (gatherSystemInfo nav2 (gatherBrowserInfo nav2 d2))
     \<and> classified (gatherSystemInfo nav1 (gatherBrowserInfo nav1 d1))
           = Some (classify (nav_userAgent nav1))"
  using assms
  by (simp add: classified_def classify_def gatherSystemInfo_def gatherBrowserInfo_def Let_def)

theorem classification_depends_on_userAgent_only_witness:
  "classified
     (gatherSystemInfo
        \<lparr>nav_userAgent = ''Mozilla/5.0 (Windows NT 10.0; Win64; x64) AppleWebKit/537.36 (KHTML, like Gecko) Chrome/120.0.0.0 Safari/537.36'',
         nav_vendor = ''Google Inc.'', nav_product = ''Gecko'', nav_appName = ''Netscape'',
         nav_appVersion = ''5.0 (Windows)'', nav_appCodeName = ''Mozilla'',
         nav_platform = ''Win32'', nav_language = ''en-US'',
         nav_languages = Some [''en-US'', ''en''], nav_cookieEnabled = True, nav_onLine = True,
         nav_doNotTrack = None, nav_hardwareConcurrency = Some 8, nav_maxTouchPoints = Some 0,
         nav_pdfViewerEnabled = Some True\<rparr>
        (gatherBrowserInfo
           \<lparr>nav_userAgent = ''Mozilla/5.0 (Windows NT 10.0; Win64; x64) AppleWebKit/537.36 (KHTML, like Gecko) Chrome/120.0.0.0 Safari/537.36'',
            nav_vendor = ''Google Inc.'', nav_product = ''Gecko'', nav_appName = ''Netscape'',
            nav_appVersion = ''5.0 (Windows)'', nav_appCodeName = ''Mozilla'',
            nav_platform = ''Win32'', nav_language = ''en-US'',
            nav_languages = Some [''en-US'', ''en''], nav_cookieEnabled = True, nav_onLine = True,
            nav_doNotTrack = None, nav_hardwareConcurrency = Some 8, nav_maxTouchPoints = Some 0,
            nav_pdfViewerEnabled = Some True\<rparr>
           \<lparr>browser = None, system = None, network = None\<rparr>))
   = classified
     (gatherSystemInfo
        \<lparr>nav_userAgent = ''Mozilla/5.0 (Windows NT 10.0; Win64; x64) AppleWebKit/537.36 (KHTML, like Gecko) Chrome/120.0.0.0 Safari/537.36'',
         nav_vendor = [], nav_product = [], nav_appName = [], nav_appVersion = [],
         nav_appCodeName = [], nav_platform = ''Linux armv8l'', nav_language = ''it-IT'',
         nav_languages = None, nav_cookieEnabled = False, nav_onLine = False,
         nav_doNotTrack = Some ''1'', nav_hardwareConcurrency = None, nav_maxTouchPoints = Some 5,
         nav_pdfViewerEnabled = None\<rparr>
        (gatherBrowserInfo
           \<lparr>nav_userAgent = ''Mozilla/5.0 (Windows NT 10.0; Win64; x64) AppleWebKit/537.36 (KHTML, like Gecko) Chrome/120.0.0.0 Safari/537.36'',
            nav_vendor = [], nav_product = [], nav_appName = [], nav_appVersion = [],
            nav_appCodeName = [], nav_platform = ''Linux armv8l'', nav_language = ''it-IT'',
            nav_languages = None, nav_cookieEnabled = False, nav_onLine = False,
            nav_doNotTrack = Some ''1'', nav_hardwareConcurrency = None, nav_maxTouchPoints = Some 5,
            nav_pdfViewerEnabled = None\<rparr>
           \<lparr>browser = None, system = None, network = Some FailureMarker\<rparr>))"
proof -
  let ?ua = "''Mozilla/5.0 (Windows NT 10.0; Win64; x64) AppleWebKit/537.36 (KHTML, like Gecko) Chrome/120.0.0.0 Safari/537.36''"
  let ?n1 = "\<lparr>nav_userAgent = ?ua,
         nav_vendor = ''Google Inc.'', nav_product = ''Gecko'', nav_appName = ''Netscape'',
         nav_appVersion = ''5.0 (Windows)'', nav_appCodeName = ''Mozilla'',
         nav_platform = ''Win32'', nav_language = ''en-US'',
         nav_languages = Some [''en-US'', ''en''], nav_cookieEnabled = True, nav_onLine = True,
         nav_doNotTrack = None, nav_hardwareConcurrency = Some 8, nav_maxTouchPoints = Some 0,
         nav_pdfViewerEnabled = Some True\<rparr>"
  let ?n2 = "\<lparr>nav_userAgent = ?ua,
         nav_vendor = [], nav_product = [], nav_appName = [], nav_appVersion = [],
         nav_appCodeName = [], nav_platform = ''Linux armv8l'', nav_language = ''it-IT'',
         nav_languages = None, nav_cookieEnabled = False, nav_onLine = False,
         nav_doNotTrack = Some ''1'', nav_hardwareConcurrency = None, nav_maxTouchPoints = Some 5,
         nav_pdfViewerEnabled = None\<rparr>"
  have h: "nav_userAgent ?n1 = nav_userAgent ?n2" by simp
  from classification_depends_on_userAgent_only [OF h,
      of "\<lparr>browser = None, system = None, network = None\<rparr>"
         "\<lparr>browser = None, system = None, network = Some FailureMarker\<rparr>"]
  show ?thesis by blast
qed

text \<open>
  C10. When the browser name is \<^verbatim>\<open>Chromium\<close> or \<^verbatim>\<open>Internet Explorer\<close>, the browser
  version is \<^verbatim>\<open>Unknown\<close>, whatever version tokens the user agent has.
\<close>

theorem no_version_for_Chromium_and_IE:
  assumes "getBrowserName ua = ''Chromium'' \<or> getBrowserName ua = ''Internet Explorer''"
  shows "getBrowserVersion ua = ''Unknown''"
  using assms by (auto simp: getBrowserVersion_def)

theorem no_version_for_Chromium_and_IE_witness:
  "getBrowserName ''Mozilla/5.0 (X11; Linux x86_64) AppleWebKit/537.36 (KHTML, like Gecko) Ubuntu Chromium/120.0.6099.71 Chrome/120.0.6099.71 Safari/537.36'' = ''Chromium''
   \<and> getBrowserVersion ''Mozilla/5.0 (X11; Linux x86_64) AppleWebKit/537.36 (KHTML, like Gecko) Ubuntu Chromium/120.0.6099.71 Chrome/120.0.6099.71 Safari/537.36'' = ''Unknown''
   \<and> getBrowserName ''Mozilla/5.0 (Windows NT 10.0; WOW64; Trident/7.0; rv:11.0) like Gecko'' = ''Internet Explorer''
   \<and> getBrowserVersion ''Mozilla/5.0 (Windows NT 10.0; WOW64; Trident/7.0; rv:11.0) like Gecko'' = ''Unknown''"
proof -
  let ?a = "''Mozilla/5.0 (X11; Linux x86_64) AppleWebKit/537.36 (KHTML, like Gecko) Ubuntu Chromium/120.0.6099.71 Chrome/120.0.6099.71 Safari/537.36''"
  let ?b = "''Mozilla/5.0 (Windows NT 10.0; WOW64; Trident/7.0; rv:11.0) like Gecko''"
  have a: "getBrowserName ?a = ''Chromium''" by (simp add: getBrowserName_def)
  have b: "getBrowserName ?b = ''Internet Explorer''" by (simp add: getBrowserName_def)
  from a have "getBrowserVersion ?a = ''Unknown''"
    by (intro no_version_for_Chromium_and_IE) simp
  moreover from b have "getBrowserVersion ?b = ''Unknown''"
    by (intro no_version_for_Chromium_and_IE) simp
  ultimately show ?thesis using a b by simp
qed

end
